theory Spec2Isabelle
  imports Complex_Main
begin

section \<open>Common values\<close>

text \<open>
  The floats of the fetcher's command line and the arithmetic that \<open>main\<close> does on
  them are Python floats, modelled in \<open>pyfloat\<close> below: binary64 values with
  rounding to nearest, ties to even, overflow to an infinity, and NaN. The float32 pixels
  of the analyzer and the coefficients of transforms and windows are exact reals: the
  rounding of their arithmetic is not part of this development. The special results of
  a float32 division by zero (infinities and NaN) are modelled, in \<open>f32\<close> below.

  Exceptions are values. \<open>exn_text\<close> is \<open>str(e)\<close>, the only part of an exception
  that the handlers of the program print.
\<close>

datatype exn =
    RasterioIOError string
  | RasterioDecodeError string
  | ValueError string
  | KeyError string
  | TypeError string

fun exn_text :: "exn \<Rightarrow> string" where
  "exn_text (RasterioIOError s) = s"
| "exn_text (RasterioDecodeError s) = s"
| "exn_text (ValueError s) = s"
| "exn_text (KeyError s) = s"
| "exn_text (TypeError s) = s"

text \<open>What a call gives back to its caller: a value, or an exception that propagates.\<close>

datatype 'a outcome = Returns 'a | Raises exn

datatype pyval = PyNone

subsection \<open>Python floats\<close>

text \<open>
  A Python float is an IEEE 754 binary64 value: a finite number, an infinity or NaN. A
  finite float is kept as the real number it stands for; the sign of a zero, which no
  comparison sees, is not kept.
\<close>

datatype pyfloat = Dbl real | DInf | DNegInf | DNaN

text \<open>
  The binary exponent of a positive real \<open>x\<close>, by halving and doubling: the \<open>e\<close>
  with \<open>2 ^ e \<le> x < 2 ^ (e + 1)\<close>.
\<close>

function expo :: "real \<Rightarrow> int" where
  "expo x = (if x < 1 then (if 0 < x then expo (2 * x) - 1 else 0)
             else if 2 \<le> x then expo (x / 2) + 1 else 0)"
  by pat_completeness auto
termination
proof (relation "measure (\<lambda>x. 2 * nat \<lceil>1 / x\<rceil> + nat \<lfloor>x\<rfloor>)")
  show "wf (measure (\<lambda>x. 2 * nat \<lceil>1 / x\<rceil> + nat \<lfloor>x\<rfloor>))" by simp
next
  fix x :: real
  assume a: "x < 1" "0 < x"
  have t: "1 < 1 / x" using a by simp
  have c2: "2 \<le> \<lceil>1 / x\<rceil>" using t by linarith
  have "1 / (2 * x) = (1 / x) / 2" by simp
  also have "\<dots> \<le> of_int \<lceil>1 / x\<rceil> / 2" by (simp add: divide_right_mono)
  also have "\<dots> \<le> of_int (\<lceil>1 / x\<rceil> - 1)" using c2 by simp
  finally have "\<lceil>1 / (2 * x)\<rceil> \<le> \<lceil>1 / x\<rceil> - 1" by (rule ceiling_le)
  moreover have "\<lfloor>2 * x\<rfloor> \<le> 1" using a by (simp add: floor_le_iff)
  moreover have "\<lfloor>x\<rfloor> = 0" using a by (simp add: floor_eq_iff)
  moreover have "0 < \<lceil>1 / (2 * x)\<rceil>" using a by simp
  ultimately show "(2 * x, x) \<in> measure (\<lambda>x. 2 * nat \<lceil>1 / x\<rceil> + nat \<lfloor>x\<rfloor>)"
    using c2 by simp linarith
next
  fix x :: real
  assume a: "\<not> x < 1" "2 \<le> x"
  have "\<lceil>1 / (x / 2)\<rceil> = 1" using a by (simp add: ceiling_eq_iff)
  moreover have "\<lceil>1 / x\<rceil> = 1" using a by (simp add: ceiling_eq_iff)
  moreover have "\<lfloor>x / 2\<rfloor> < \<lfloor>x\<rfloor>"
  proof -
    have "x / 2 \<le> x - 1" using a by simp
    then have "\<lfloor>x / 2\<rfloor> \<le> \<lfloor>x - 1\<rfloor>" by (rule floor_mono)
    then show ?thesis by simp
  qed
  moreover have "0 < \<lfloor>x\<rfloor>" using a by simp
  ultimately show "(x / 2, x) \<in> measure (\<lambda>x. 2 * nat \<lceil>1 / x\<rceil> + nat \<lfloor>x\<rfloor>)"
    by simp
qed

declare expo.simps [simp del]

text \<open>Rounding a real to the nearest integer, a tie going to the even one.\<close>

definition round_half_even :: "real \<Rightarrow> int" where
  "round_half_even x =
     (let n = \<lfloor>x\<rfloor>; r = x - of_int n
      in if r < 1 / 2 then n else if 1 / 2 < r then n + 1 else if even n then n else n + 1)"

text \<open>
  The exponent of the unit in the last place of a binary64 value near \<open>x\<close>: 53
  significant bits, and no exponent below that of the subnormal numbers.
\<close>

definition ulp_exp :: "real \<Rightarrow> int" where
  "ulp_exp x = max (expo x - 52) (- 1074)"

definition round_mag :: "real \<Rightarrow> real" where
  "round_mag x = of_int (round_half_even (x / 2 powi ulp_exp x)) * 2 powi ulp_exp x"

definition round_real :: "real \<Rightarrow> real" where
  "round_real x = (if x < 0 then - round_mag (- x) else round_mag x)"

text \<open>
  The binary64 result of an operation whose exact result is \<open>x\<close>: the nearest
  representable value, and an infinity when that reaches \<open>2 ^ 1024\<close>.
\<close>

definition round64 :: "real \<Rightarrow> pyfloat" where
  "round64 x =
     (let y = round_real x
      in if 2 ^ 1024 \<le> y then DInf else if y \<le> - (2 ^ 1024) then DNegInf else Dbl y)"

fun fneg :: "pyfloat \<Rightarrow> pyfloat" where
  "fneg (Dbl x) = Dbl (- x)"
| "fneg DInf = DNegInf"
| "fneg DNegInf = DInf"
| "fneg DNaN = DNaN"

text \<open>Python's \<open>a + b\<close> and \<open>a - b\<close> on floats.\<close>

fun fadd :: "pyfloat \<Rightarrow> pyfloat \<Rightarrow> pyfloat" where
  "fadd DNaN _ = DNaN"
| "fadd _ DNaN = DNaN"
| "fadd (Dbl x) (Dbl y) = round64 (x + y)"
| "fadd DInf DNegInf = DNaN"
| "fadd DNegInf DInf = DNaN"
| "fadd DInf _ = DInf"
| "fadd _ DInf = DInf"
| "fadd DNegInf _ = DNegInf"
| "fadd _ DNegInf = DNegInf"

definition fsub :: "pyfloat \<Rightarrow> pyfloat \<Rightarrow> pyfloat" where
  "fsub a b = fadd a (fneg b)"

text \<open>Python's \<open>a < b\<close> and \<open>a <= b\<close> on floats: false when either is NaN.\<close>

fun fless :: "pyfloat \<Rightarrow> pyfloat \<Rightarrow> bool" where
  "fless DNaN _ = False"
| "fless _ DNaN = False"
| "fless (Dbl x) (Dbl y) = (x < y)"
| "fless _ DNegInf = False"
| "fless DInf _ = False"
| "fless DNegInf _ = True"
| "fless _ DInf = True"

fun fle :: "pyfloat \<Rightarrow> pyfloat \<Rightarrow> bool" where
  "fle DNaN _ = False"
| "fle _ DNaN = False"
| "fle (Dbl x) (Dbl y) = (x \<le> y)"
| "fle DNegInf _ = True"
| "fle _ DInf = True"
| "fle _ DNegInf = False"
| "fle DInf _ = False"

fun is_finite :: "pyfloat \<Rightarrow> bool" where
  "is_finite (Dbl _) = True"
| "is_finite _ = False"

section \<open>satellite\_fetcher.py\<close>

subsection \<open>Affine transforms, windows and profiles\<close>

record affine =
  af_a :: real
  af_b :: real
  af_c :: real
  af_d :: real
  af_e :: real
  af_f :: real

text \<open>
  Modelled from the spec: the affine transform of the raster library, which is not part
  of the repository's sources (``the linear mapping from pixel coordinates to world (map)
  coordinates''). A pixel is addressed by row and column; the column is the x input and
  the row the y input of the mapping.
\<close>

definition pixel_to_world :: "affine \<Rightarrow> real \<Rightarrow> real \<Rightarrow> real \<times> real" where
  "pixel_to_world t row col =
     (af_a t * col + af_b t * row + af_c t, af_d t * col + af_e t * row + af_f t)"

record window =
  col_off :: real
  row_off :: real
  width :: real
  height :: real

text \<open>
  Modelled from the spec: \<open>vrt.window_transform(window)\<close> of the raster library, which
  is not part of the repository's sources. The spec: ``the view's reprojected transform
  adjusted for the window's row/column offset (i.e., the new transform's origin is the
  world coordinate of the window's top-left pixel, with the same pixel size/rotation as
  the view)''.
\<close>

definition window_transform :: "affine \<Rightarrow> window \<Rightarrow> affine" where
  "window_transform t w =
     (case pixel_to_world t (row_off w) (col_off w) of
        (x, y) \<Rightarrow> t\<lparr>af_c := x, af_f := y\<rparr>)"

text \<open>A profile is a Python dict from keyword to value.\<close>

datatype pval = PStr string | PNum real | PAffine affine

type_synonym profile = "string \<rightharpoonup> pval"

text \<open>
  The reprojection view (\<open>WarpedVRT\<close>): what \<open>download_subset\<close> reads of it are its
  transform and its profile.
\<close>

record vrt =
  vrt_transform :: affine
  vrt_profile :: profile

text \<open>Lines 62 to 70 of \<open>download_subset\<close>: the profile of the cropped output.\<close>

definition synthesize_profile :: "vrt \<Rightarrow> window \<Rightarrow> profile" where
  "synthesize_profile v w =
     (let transform = window_transform (vrt_transform v) w
      in (vrt_profile v)
           (''driver'' \<mapsto> PStr ''GTiff'',
            ''height'' \<mapsto> PNum (height w),
            ''width'' \<mapsto> PNum (width w),
            ''transform'' \<mapsto> PAffine transform))"

definition profile_transform :: "profile \<Rightarrow> affine option" where
  "profile_transform p = (case p ''transform'' of Some (PAffine t) \<Rightarrow> Some t | _ \<Rightarrow> None)"

subsection \<open>download\_subset\<close>

text \<open>
  A bounding box is the sequence \<open>(west, south, east, north)\<close> that
  \<open>vrt.window(*bbox)\<close> unpacks.
\<close>

type_synonym bbox = "pyfloat \<times> pyfloat \<times> pyfloat \<times> pyfloat"

text \<open>
  What the program prints. The texts are Japanese sentences; a message is kept as the
  line of the source that prints it, with the values it interpolates.
\<close>

datatype msg =
    MsgSubsetStart string
  | MsgSubsetDone string
  | MsgSubsetError string
  | MsgSubsetHint
  | MsgGeocoding string
  | MsgTarget pyfloat pyfloat
  | MsgNoImage
  | MsgFound string real
  | MsgPreview string
  | MsgFileDone
  | MsgFileError string
  | MsgNeedSave
  | MsgBand string

text \<open>
  The raster library as \<open>download_subset\<close> calls it: each call returns its value or
  raises. \<open>rio_open\<close> is \<open>rasterio.open(href)\<close>, \<open>warped_vrt\<close> is
  \<open>WarpedVRT(src, crs="EPSG:4326")\<close>, \<open>vrt_window\<close> is \<open>vrt.window(*bbox)\<close>,
  \<open>vrt_read\<close> is \<open>vrt.read(window=window)\<close>, \<open>rio_create\<close> is
  \<open>rasterio.open(save_path, 'w', **profile)\<close> and \<open>dst_write\<close> is
  \<open>dst.write(data)\<close>.
\<close>

record ('src, 'data) raster_io =
  rio_open :: "string \<Rightarrow> exn + 'src"
  warped_vrt :: "'src \<Rightarrow> exn + vrt"
  vrt_window :: "vrt \<Rightarrow> bbox \<Rightarrow> exn + window"
  vrt_read :: "vrt \<Rightarrow> window \<Rightarrow> exn + 'data"
  rio_create :: "string \<Rightarrow> profile \<Rightarrow> exn option"
  dst_write :: "string \<Rightarrow> 'data \<Rightarrow> exn option"

datatype 'data fs_event = Created string profile | Wrote string 'data

text \<open>
  The body of the \<open>try\<close> block, lines 52 to 74: the exception that leaves it, if any,
  and what was done to the file system until then.
\<close>

definition subset_body ::
  "('src, 'data) raster_io \<Rightarrow> string \<Rightarrow> string \<Rightarrow> bbox \<Rightarrow> exn option \<times> 'data fs_event list" where
  "subset_body io href save_path bb =
     (case rio_open io href of
        Inl e \<Rightarrow> (Some e, [])
      | Inr src \<Rightarrow>
     (case warped_vrt io src of
        Inl e \<Rightarrow> (Some e, [])
      | Inr v \<Rightarrow>
     (case vrt_window io v bb of
        Inl e \<Rightarrow> (Some e, [])
      | Inr w \<Rightarrow>
     (case vrt_read io v w of
        Inl e \<Rightarrow> (Some e, [])
      | Inr data \<Rightarrow>
     (let profile = synthesize_profile v w in
      case rio_create io save_path profile of
        Some e \<Rightarrow> (Some e, [])
      | None \<Rightarrow>
     (case dst_write io save_path data of
        Some e \<Rightarrow> (Some e, [Created save_path profile])
      | None \<Rightarrow> (None, [Created save_path profile, Wrote save_path data])))))))"

record 'data subset_run =
  sr_result :: "pyval outcome"
  sr_printed :: "msg list"
  sr_files :: "'data fs_event list"

text \<open>
  \<open>download_subset\<close>: the first \<open>print\<close>, the \<open>try\<close> block, and the handler
  \<open>except Exception as e\<close> with its two \<open>print\<close>s. The function has no
  \<open>return\<close> statement.
\<close>

definition download_subset ::
  "('src, 'data) raster_io \<Rightarrow> string \<Rightarrow> string \<Rightarrow> bbox \<Rightarrow> 'data subset_run" where
  "download_subset io href save_path bb =
     (case subset_body io href save_path bb of
        (None, files) \<Rightarrow>
          \<lparr>sr_result = Returns PyNone,
           sr_printed = [MsgSubsetStart save_path, MsgSubsetDone save_path],
           sr_files = files\<rparr>
      | (Some e, files) \<Rightarrow>
          \<lparr>sr_result = Returns PyNone,
           sr_printed = [MsgSubsetStart save_path, MsgSubsetError (exn_text e), MsgSubsetHint],
           sr_files = files\<rparr>)"

text \<open>
  What ``the failure is surfaced to the caller as an error'' asks of a function: the
  exception that left the body reaches the caller.
\<close>

definition surfaces :: "exn option \<Rightarrow> pyval outcome \<Rightarrow> bool" where
  "surfaces body res = (case body of None \<Rightarrow> True | Some e \<Rightarrow> res = Raises e)"

text \<open>Two raster libraries for concrete runs: the open fails, with either kind of error.\<close>

definition io_expired :: "(unit, unit) raster_io" where
  "io_expired =
     \<lparr>rio_open = (\<lambda>_. Inl (RasterioIOError ''HTTP 403'')),
      warped_vrt = (\<lambda>_. Inl (ValueError ''unused'')),
      vrt_window = (\<lambda>_ _. Inl (ValueError ''unused'')),
      vrt_read = (\<lambda>_ _. Inl (ValueError ''unused'')),
      rio_create = (\<lambda>_ _. None),
      dst_write = (\<lambda>_ _. None)\<rparr>"

definition io_corrupt :: "(unit, unit) raster_io" where
  "io_corrupt = io_expired\<lparr>rio_open := (\<lambda>_. Inl (RasterioDecodeError ''HTTP 403''))\<rparr>"

subsection \<open>main of the fetcher\<close>

datatype index_choice = Preview | Ndvi | Ndwi | All

text \<open>The parsed command line. \<open>-a\<close> and \<open>-p\<close> default to \<open>None\<close>.\<close>

record args =
  arg_address :: "string option"
  arg_point :: "(pyfloat \<times> pyfloat) option"
  arg_index :: index_choice
  arg_coord_only :: bool
  arg_cloud_cover :: pyfloat
  arg_start_date :: string
  arg_end_date :: "string option"
  arg_bbox_size :: pyfloat
  arg_save :: bool
  arg_output :: "string option"

text \<open>A scene item of the catalog: its date as printed, its properties, its assets.\<close>

record item =
  item_date :: string
  item_props :: "string \<rightharpoonup> real"
  item_assets :: "string \<rightharpoonup> string"

text \<open>
  The collaborators of \<open>main\<close>: \<open>geocode\<close> is \<open>geolocator.geocode(address)\<close> (a
  location, \<open>None\<close>, or an exception), \<open>today\<close> is the formatted
  \<open>datetime.now()\<close>, \<open>catalog_open\<close> is \<open>pystac_client.Client.open\<close>,
  \<open>catalog_items\<close> is \<open>list(catalog.search(...).items())\<close> for a bounding box, a
  date range and a cloud-cover ceiling, \<open>http_download\<close> is the body of the
  \<open>try\<close> block of \<open>download_file\<close>, and \<open>set_order\<close> is \<open>list(set(bands))\<close>,
  whose order Python does not fix.
\<close>

record ('src, 'data) fetcher_env =
  geocode :: "string \<Rightarrow> exn + (pyfloat \<times> pyfloat) option"
  today :: string
  catalog_open :: "exn option"
  catalog_items :: "bbox \<Rightarrow> string \<Rightarrow> pyfloat \<Rightarrow> exn + item list"
  http_download :: "string \<Rightarrow> string \<Rightarrow> exn option"
  set_order :: "string list \<Rightarrow> string list"
  raster :: "('src, 'data) raster_io"

text \<open>What \<open>main\<close> does, in order: a line printed, or a call of a collaborator.\<close>

datatype 'data event =
    Printed msg
  | Searched bbox string pyfloat
  | FileCall string string
  | SubsetCall string string bbox "'data subset_run"

definition get_coords_from_address ::
  "('src, 'data) fetcher_env \<Rightarrow> string \<Rightarrow> exn + (pyfloat \<times> pyfloat)" where
  "get_coords_from_address env address =
     (case geocode env address of
        Inl e \<Rightarrow> Inl e
      | Inr None \<Rightarrow> Inl (ValueError address)
      | Inr (Some lonlat) \<Rightarrow> Inr lonlat)"

definition download_file :: "('src, 'data) fetcher_env \<Rightarrow> string \<Rightarrow> string \<Rightarrow> 'data event list" where
  "download_file env url save_path =
     FileCall url save_path #
     (case http_download env url save_path of
        None \<Rightarrow> [Printed MsgFileDone]
      | Some e \<Rightarrow> [Printed (MsgFileError (exn_text e))])"

text \<open>
  Python's \<open>x if x else d\<close> on an optional string: \<open>None\<close> and \<open>""\<close> are false.
\<close>

fun or_else :: "string option \<Rightarrow> string \<Rightarrow> string" where
  "or_else (Some (c # cs)) d = c # cs"
| "or_else _ d = d"

text \<open>Step 1 of \<open>main\<close>, lines 108 to 112.\<close>

definition locate ::
  "('src, 'data) fetcher_env \<Rightarrow> args \<Rightarrow> 'data event list \<times> (exn + (pyfloat \<times> pyfloat))" where
  "locate env a =
     (case arg_address a of
        Some (c # cs) \<Rightarrow>
          ([Printed (MsgGeocoding (c # cs))], get_coords_from_address env (c # cs))
      | _ \<Rightarrow>
          (case arg_point a of
             None \<Rightarrow> ([], Inl (TypeError ''cannot unpack non-iterable NoneType object''))
           | Some lonlat \<Rightarrow> ([], Inr lonlat)))"

text \<open>Line 125.\<close>

definition search_bbox :: "pyfloat \<Rightarrow> pyfloat \<Rightarrow> pyfloat \<Rightarrow> bbox" where
  "search_bbox lon lat bbox_size =
     (fsub lon bbox_size, fsub lat bbox_size, fadd lon bbox_size, fadd lat bbox_size)"

text \<open>
  Running one step after another: the second runs only when the first raised nothing.
\<close>

definition and_then ::
  "'e list \<times> exn option \<Rightarrow> 'e list \<times> exn option \<Rightarrow> 'e list \<times> exn option" where
  "and_then r k =
     (case r of
        (evs, Some e) \<Rightarrow> (evs, Some e)
      | (evs, None) \<Rightarrow> (case k of (evs', r') \<Rightarrow> (evs @ evs', r')))"

text \<open>Lines 147 to 151.\<close>

definition preview_step ::
  "('src, 'data) fetcher_env \<Rightarrow> args \<Rightarrow> item \<Rightarrow> string \<Rightarrow> 'data event list \<times> exn option" where
  "preview_step env a best base_name =
     (if arg_index a \<in> {Preview, All}
      then (case item_assets best ''rendered_preview'' of
              None \<Rightarrow> ([], Some (KeyError ''rendered_preview''))
            | Some url \<Rightarrow>
                (Printed (MsgPreview url) #
                 (if arg_save a then download_file env url (base_name @ ''_preview.jpg'') else []),
                 None))
      else ([], None))"

text \<open>Lines 158 to 160.\<close>

definition select_bands :: "index_choice \<Rightarrow> string list" where
  "select_bands ix =
     (if ix \<in> {Ndvi, All} then [''B04'', ''B08''] else [])
     @ (if ix \<in> {Ndwi, All} then [''B03'', ''B11''] else [])"

text \<open>The loop of lines 164 to 167.\<close>

fun download_bands ::
  "('src, 'data) fetcher_env \<Rightarrow> item \<Rightarrow> string \<Rightarrow> bbox \<Rightarrow> string list
     \<Rightarrow> 'data event list \<times> exn option" where
  "download_bands env best base_name bb [] = ([], None)"
| "download_bands env best base_name bb (band # bands) =
     (case item_assets best band of
        None \<Rightarrow> ([], Some (KeyError band))
      | Some href \<Rightarrow>
          and_then
            ([Printed (MsgBand band),
              SubsetCall href (base_name @ ''_'' @ band @ ''.tif'') bb
                (download_subset (raster env) href (base_name @ ''_'' @ band @ ''.tif'') bb)],
             None)
            (download_bands env best base_name bb bands))"

text \<open>Lines 153 to 167.\<close>

definition analysis_step ::
  "('src, 'data) fetcher_env \<Rightarrow> args \<Rightarrow> item \<Rightarrow> string \<Rightarrow> bbox
     \<Rightarrow> 'data event list \<times> exn option" where
  "analysis_step env a best base_name bb =
     (if arg_index a \<in> {Ndvi, Ndwi, All}
      then (if \<not> arg_save a then ([Printed MsgNeedSave], None)
            else download_bands env best base_name bb (set_order env (select_bands (arg_index a))))
      else ([], None))"

text \<open>Lines 118 to 167: everything after the early return of \<open>--coord-only\<close>.\<close>

definition search_step ::
  "('src, 'data) fetcher_env \<Rightarrow> args \<Rightarrow> pyfloat \<Rightarrow> pyfloat \<Rightarrow> 'data event list \<times> exn option" where
  "search_step env a lon lat =
     (let end_date = or_else (arg_end_date a) (today env) in
      case catalog_open env of
        Some e \<Rightarrow> ([], Some e)
      | None \<Rightarrow>
     (let bb = search_bbox lon lat (arg_bbox_size a);
          searched = Searched bb (arg_start_date a @ ''/'' @ end_date) (arg_cloud_cover a) in
      case catalog_items env bb (arg_start_date a @ ''/'' @ end_date) (arg_cloud_cover a) of
        Inl e \<Rightarrow> ([searched], Some e)
      | Inr [] \<Rightarrow> ([searched, Printed MsgNoImage], None)
      | Inr (best # _) \<Rightarrow>
     (case item_props best ''eo:cloud_cover'' of
        None \<Rightarrow> ([searched], Some (KeyError ''eo:cloud_cover''))
      | Some cloud \<Rightarrow>
     (let base_name = or_else (arg_output a) (''sentinel2_'' @ item_date best) in
      and_then ([searched, Printed (MsgFound (item_date best) cloud)], None)
        (and_then (preview_step env a best base_name)
                  (analysis_step env a best base_name bb))))))"

record 'data main_run =
  fm_result :: "pyval outcome"
  fm_events :: "'data event list"

definition fetcher_main :: "('src, 'data) fetcher_env \<Rightarrow> args \<Rightarrow> 'data main_run" where
  "fetcher_main env a =
     (case locate env a of
        (evs, Inl e) \<Rightarrow> \<lparr>fm_result = Raises e, fm_events = evs\<rparr>
      | (evs, Inr (lon, lat)) \<Rightarrow>
          (if arg_coord_only a
           then \<lparr>fm_result = Returns PyNone, fm_events = evs @ [Printed (MsgTarget lon lat)]\<rparr>
           else (case search_step env a lon lat of
                   (evs', r) \<Rightarrow>
                     \<lparr>fm_result = (case r of None \<Rightarrow> Returns PyNone | Some e \<Rightarrow> Raises e),
                      fm_events = evs @ [Printed (MsgTarget lon lat)] @ evs'\<rparr>)))"

text \<open>The bounding boxes that a run hands to the catalog search and to \<open>download_subset\<close>.\<close>

fun event_bbox :: "'data event \<Rightarrow> bbox list" where
  "event_bbox (Printed _) = []"
| "event_bbox (Searched bb _ _) = [bb]"
| "event_bbox (FileCall _ _) = []"
| "event_bbox (SubsetCall _ _ bb _) = [bb]"

definition bboxes_used :: "'data event list \<Rightarrow> bbox list" where
  "bboxes_used evs = concat (map event_bbox evs)"

text \<open>
  Modelled from the spec: the invariant of a BoundingBox, ``\<open>west < east\<close> and
  \<open>south < north\<close>'', which no function of the sources states.
\<close>

fun bbox_invariant :: "bbox \<Rightarrow> bool" where
  "bbox_invariant (west, south, east, north) = (fless west east \<and> fless south north)"

text \<open>The weaker order \<open>west <= east\<close> and \<open>south <= north\<close>.\<close>

fun bbox_ordered :: "bbox \<Rightarrow> bool" where
  "bbox_ordered (west, south, east, north) = (fle west east \<and> fle south north)"

text \<open>
  Concrete runs: a point given on the command line, index \<open>ndvi\<close> with
  \<open>--save\<close>, and a catalog that finds one scene; with a negative
  \<open>--bbox-size\<close>, with \<open>--bbox-size 1\<close>, and with the point
  \<open>139.75 35.5\<close> and \<open>--bbox-size 8.673617379884035e-19\<close>, the float
  \<open>2 ^ -60\<close>.
\<close>

definition scene :: item where
  "scene =
     \<lparr>item_date = ''2024-05-01'',
      item_props = [''eo:cloud_cover'' \<mapsto> 3],
      item_assets = [''B04'' \<mapsto> ''https://host/B04.tif'', ''B08'' \<mapsto> ''https://host/B08.tif'']\<rparr>"

definition env_one_scene :: "(unit, unit) fetcher_env" where
  "env_one_scene =
     \<lparr>geocode = (\<lambda>_. Inr None),
      today = ''2024-06-01'',
      catalog_open = None,
      catalog_items = (\<lambda>_ _ _. Inr [scene]),
      http_download = (\<lambda>_ _. None),
      set_order = (\<lambda>bands. bands),
      raster = io_expired\<rparr>"

definition args_negative_size :: args where
  "args_negative_size =
     \<lparr>arg_address = None,
      arg_point = Some (Dbl 10, Dbl 20),
      arg_index = Ndvi,
      arg_coord_only = False,
      arg_cloud_cover = Dbl 10,
      arg_start_date = ''2023-01-01'',
      arg_end_date = None,
      arg_bbox_size = Dbl (- 1),
      arg_save = True,
      arg_output = None\<rparr>"

definition args_unit_size :: args where
  "args_unit_size = args_negative_size\<lparr>arg_bbox_size := Dbl 1\<rparr>"

definition args_tiny_size :: args where
  "args_tiny_size =
     args_negative_size
       \<lparr>arg_point := Some (Dbl (559 / 4), Dbl (71 / 2)), arg_bbox_size := Dbl (1 / 2 ^ 60)\<rparr>"

section \<open>satellite\_analyzer.py\<close>

subsection \<open>Arrays\<close>

text \<open>
  A two-dimensional NumPy array: its shape and its cells in row-major order. An array
  is well formed when it has as many cells as its shape says.
\<close>

datatype 'a ndarray = NdArray (nrows: nat) (ncols: nat) (cells: "'a list")

definition wf_array :: "'a ndarray \<Rightarrow> bool" where
  "wf_array a = (length (cells a) = nrows a * ncols a)"

text \<open>The cell \<open>a[i, j]\<close>, for an index in range.\<close>

definition cell :: "'a ndarray \<Rightarrow> nat \<Rightarrow> nat \<Rightarrow> 'a option" where
  "cell a i j = (if i < nrows a \<and> j < ncols a then Some (cells a ! (i * ncols a + j)) else None)"

text \<open>
  A float32 result: a finite number, an infinity or NaN. Band pixels are finite numbers;
  a division by zero is what brings the other values in.
\<close>

datatype f32 = Fin real | PosInf | NegInf | NaN

text \<open>
  NumPy's elementwise operations on two arrays. Two dimensions are compatible when they
  are equal or one of them is 1; an operand is stretched along a dimension of length 1.
  Incompatible shapes raise \<open>ValueError\<close>.
\<close>

definition broadcast_dim :: "nat \<Rightarrow> nat \<Rightarrow> nat option" where
  "broadcast_dim m n =
     (if m = n then Some m else if m = 1 then Some n else if n = 1 then Some m else None)"

definition bcast_at :: "'a ndarray \<Rightarrow> nat \<Rightarrow> nat \<Rightarrow> 'a" where
  "bcast_at a i j =
     cells a ! ((if nrows a = 1 then 0 else i) * ncols a + (if ncols a = 1 then 0 else j))"

definition broadcast2 ::
  "('a \<Rightarrow> 'b \<Rightarrow> 'c) \<Rightarrow> 'a ndarray \<Rightarrow> 'b ndarray \<Rightarrow> exn + 'c ndarray" where
  "broadcast2 f a b =
     (case (broadcast_dim (nrows a) (nrows b), broadcast_dim (ncols a) (ncols b)) of
        (Some r, Some c) \<Rightarrow>
          Inr (NdArray r c
                 (map (\<lambda>k. f (bcast_at a (k div c) (k mod c)) (bcast_at b (k div c) (k mod c)))
                      [0..<r * c]))
      | _ \<Rightarrow> Inl (ValueError ''operands could not be broadcast together''))"

definition map_array :: "('a \<Rightarrow> 'b) \<Rightarrow> 'a ndarray \<Rightarrow> 'b ndarray" where
  "map_array f a = NdArray (nrows a) (ncols a) (map f (cells a))"

text \<open>
  The float32 division under \<open>np.errstate(divide='ignore', invalid='ignore')\<close>: a zero
  divisor gives NaN for \<open>0 / 0\<close> and a signed infinity otherwise, without a warning.
\<close>

definition f32_div :: "real \<Rightarrow> real \<Rightarrow> f32" where
  "f32_div x y =
     (if y = 0 then (if x = 0 then NaN else if 0 < x then PosInf else NegInf)
      else Fin (x / y))"

fun f32_neg :: "f32 \<Rightarrow> f32" where
  "f32_neg (Fin x) = Fin (- x)"
| "f32_neg PosInf = NegInf"
| "f32_neg NegInf = PosInf"
| "f32_neg NaN = NaN"

text \<open>The comparison \<open>==\<close> of two floats: NaN equals nothing.\<close>

fun f32_eq :: "f32 \<Rightarrow> f32 \<Rightarrow> bool" where
  "f32_eq NaN _ = False"
| "f32_eq _ NaN = False"
| "f32_eq x y = (x = y)"

text \<open>\<open>np.fmin\<close>, \<open>np.fmax\<close>: the smaller and the larger of two, ignoring a NaN.\<close>

fun f32_le :: "f32 \<Rightarrow> f32 \<Rightarrow> bool" where
  "f32_le NegInf _ = True"
| "f32_le _ PosInf = True"
| "f32_le (Fin x) (Fin y) = (x \<le> y)"
| "f32_le _ _ = False"

fun fmin :: "f32 \<Rightarrow> f32 \<Rightarrow> f32" where
  "fmin NaN y = y"
| "fmin x NaN = x"
| "fmin x y = (if f32_le x y then x else y)"

fun fmax :: "f32 \<Rightarrow> f32 \<Rightarrow> f32" where
  "fmax NaN y = y"
| "fmax x NaN = x"
| "fmax x y = (if f32_le x y then y else x)"

text \<open>\<open>np.nanmin\<close>, \<open>np.nanmax\<close>: an array without cells raises \<open>ValueError\<close>.\<close>

definition nanmin :: "f32 ndarray \<Rightarrow> exn + f32" where
  "nanmin a =
     (case cells a of
        [] \<Rightarrow> Inl (ValueError ''zero-size array to reduction operation fmin which has no identity'')
      | x # xs \<Rightarrow> Inr (fold fmin xs x))"

definition nanmax :: "f32 ndarray \<Rightarrow> exn + f32" where
  "nanmax a =
     (case cells a of
        [] \<Rightarrow> Inl (ValueError ''zero-size array to reduction operation fmax which has no identity'')
      | x # xs \<Rightarrow> Inr (fold fmax xs x))"

subsection \<open>calculate\_index\<close>

text \<open>
  Lines 24 to 29: the denominator \<open>b1 + b2\<close>, the mask \<open>denominator == 0.\<close>, the
  quotient \<open>(b1 - b2) / denominator\<close>, computed at every cell, and \<open>np.where\<close>,
  which takes \<open>0.\<close> where the mask holds and the quotient elsewhere.
\<close>

definition normalized_difference :: "real ndarray \<Rightarrow> real ndarray \<Rightarrow> exn + f32 ndarray" where
  "normalized_difference b1 b2 =
     (case broadcast2 (+) b1 b2 of
        Inl e \<Rightarrow> Inl e
      | Inr denominator \<Rightarrow>
     (case broadcast2 (-) b1 b2 of
        Inl e \<Rightarrow> Inl e
      | Inr difference \<Rightarrow>
     (case broadcast2 f32_div difference denominator of
        Inl e \<Rightarrow> Inl e
      | Inr ratio \<Rightarrow>
          broadcast2 (\<lambda>zero q. if zero then Fin 0 else q)
            (map_array (\<lambda>d. d = 0) denominator) ratio)))"

datatype amsg =
    MsgCalcStart string string string
  | MsgCalcDone string f32 f32
  | MsgSaved string
  | MsgSkip string string string

text \<open>
  The collaborators of the analyzer: \<open>an_exists\<close> is \<open>Path(p).exists()\<close>,
  \<open>an_open\<close> is \<open>rasterio.open(path)\<close>, \<open>an_read\<close> is
  \<open>src.read(1).astype('float32')\<close>, \<open>an_meta\<close> is \<open>src.meta\<close>, and
  \<open>an_plot\<close> is the plotting of \<open>save_heatmap\<close> for a path, a colour map, a title
  and the data.
\<close>

record 'ds analyzer_env =
  an_exists :: "string \<Rightarrow> bool"
  an_open :: "string \<Rightarrow> exn + 'ds"
  an_read :: "'ds \<Rightarrow> exn + real ndarray"
  an_meta :: "'ds \<Rightarrow> profile"
  an_plot :: "string \<Rightarrow> string \<Rightarrow> string \<Rightarrow> f32 ndarray \<Rightarrow> exn option"

definition calculate_index ::
  "'ds analyzer_env \<Rightarrow> string \<Rightarrow> string \<Rightarrow> string
     \<Rightarrow> amsg list \<times> (exn + f32 ndarray \<times> profile)" where
  "calculate_index env band1_path band2_path index_name =
     (let start = MsgCalcStart index_name band1_path band2_path in
      case an_open env band1_path of
        Inl e \<Rightarrow> ([start], Inl e)
      | Inr src1 \<Rightarrow>
     (case an_read env src1 of
        Inl e \<Rightarrow> ([start], Inl e)
      | Inr b1 \<Rightarrow>
     (let meta = an_meta env src1 in
      case an_open env band2_path of
        Inl e \<Rightarrow> ([start], Inl e)
      | Inr src2 \<Rightarrow>
     (case an_read env src2 of
        Inl e \<Rightarrow> ([start], Inl e)
      | Inr b2 \<Rightarrow>
     (case normalized_difference b1 b2 of
        Inl e \<Rightarrow> ([start], Inl e)
      | Inr index_map \<Rightarrow>
     (case nanmin index_map of
        Inl e \<Rightarrow> ([start], Inl e)
      | Inr lo \<Rightarrow>
     (case nanmax index_map of
        Inl e \<Rightarrow> ([start], Inl e)
      | Inr hi \<Rightarrow>
          ([start, MsgCalcDone index_name lo hi], Inr (index_map, meta)))))))))"

subsection \<open>main of the analyzer\<close>

definition save_heatmap ::
  "'ds analyzer_env \<Rightarrow> f32 ndarray \<Rightarrow> string \<Rightarrow> string \<Rightarrow> string \<Rightarrow> amsg list \<times> exn option" where
  "save_heatmap env data output_path cmap title =
     (case an_plot env output_path cmap title data of
        Some e \<Rightarrow> ([], Some e)
      | None \<Rightarrow> ([MsgSaved output_path], None))"

text \<open>One of the two blocks of \<open>main\<close>, lines 59 to 64 and lines 71 to 77.\<close>

definition index_block ::
  "'ds analyzer_env \<Rightarrow> string \<Rightarrow> string \<Rightarrow> string \<Rightarrow> string \<Rightarrow> string \<Rightarrow> string
     \<Rightarrow> amsg list \<times> exn option" where
  "index_block env band1_path band2_path index_name output_path cmap title =
     (if an_exists env band1_path \<and> an_exists env band2_path
      then (case calculate_index env band1_path band2_path index_name of
              (printed, Inl e) \<Rightarrow> (printed, Some e)
            | (printed, Inr (index_map, _)) \<Rightarrow>
                and_then (printed, None) (save_heatmap env index_map output_path cmap title))
      else ([MsgSkip index_name band1_path band2_path], None))"

definition ndvi_block :: "'ds analyzer_env \<Rightarrow> string \<Rightarrow> amsg list \<times> exn option" where
  "ndvi_block env base =
     index_block env (base @ ''_B08.tif'') (base @ ''_B04.tif'') ''NDVI''
       (base @ ''_NDVI_result.png'') ''RdYlGn'' (''NDVI Analysis: '' @ base)"

definition mndwi_block :: "'ds analyzer_env \<Rightarrow> string \<Rightarrow> amsg list \<times> exn option" where
  "mndwi_block env base =
     index_block env (base @ ''_B03.tif'') (base @ ''_B11.tif'') ''MNDWI''
       (base @ ''_MNDWI_result.png'') ''PuBu'' (''MNDWI Analysis: '' @ base)"

definition analyzer_main :: "'ds analyzer_env \<Rightarrow> string \<Rightarrow> amsg list \<times> exn option" where
  "analyzer_main env base = and_then (ndvi_block env base) (mndwi_block env base)"

subsection \<open>Statements about the index\<close>

text \<open>
  The words of the claims about \<open>calculate_index\<close>: two arrays of the same shape, the
  output at a position, a value within \<open>[-1, 1]\<close>, two shapes that NumPy can
  broadcast together, and a printed line that names an index.
\<close>

definition same_shape :: "'a ndarray \<Rightarrow> 'b ndarray \<Rightarrow> bool" where
  "same_shape a b = (nrows b = nrows a \<and> ncols b = ncols a)"

definition nd_at :: "real ndarray \<Rightarrow> real ndarray \<Rightarrow> nat \<Rightarrow> nat \<Rightarrow> f32 option" where
  "nd_at a b i j = (case normalized_difference a b of Inl _ \<Rightarrow> None | Inr out \<Rightarrow> cell out i j)"


definition broadcastable :: "'a ndarray \<Rightarrow> 'b ndarray \<Rightarrow> bool" where
  "broadcastable a b =
     (broadcast_dim (nrows a) (nrows b) \<noteq> None \<and> broadcast_dim (ncols a) (ncols b) \<noteq> None)"

fun msg_index :: "amsg \<Rightarrow> string option" where
  "msg_index (MsgCalcStart n _ _) = Some n"
| "msg_index (MsgCalcDone n _ _) = Some n"
| "msg_index (MsgSaved _) = None"
| "msg_index (MsgSkip n _ _) = Some n"

definition handled :: "string \<Rightarrow> amsg list \<Rightarrow> bool" where
  "handled n printed = (Some n \<in> set (map msg_index printed))"

text \<open>
  Concrete bands and collaborators: the two bands of the spec's scenario, a band of one
  row, and three file systems.
\<close>

definition band_a :: "real ndarray" where "band_a = NdArray 2 2 [10, 10, 0, 5]"
definition band_b :: "real ndarray" where "band_b = NdArray 2 2 [10, 10, 0, 0]"

definition band_row :: "real ndarray" where "band_row = NdArray 1 2 [10, 0]"

definition band_meta :: profile where "band_meta = [''count'' \<mapsto> PNum 1]"

definition env_bands :: "string analyzer_env" where
  "env_bands =
     \<lparr>an_exists = (\<lambda>_. True),
      an_open = (\<lambda>p. Inr p),
      an_read = (\<lambda>ds. Inr (if ds = ''x_B08.tif'' then band_a else band_row)),
      an_meta = (\<lambda>ds. if ds = ''x_B08.tif'' then band_meta else Map.empty),
      an_plot = (\<lambda>_ _ _ _. None)\<rparr>"

definition env_unreadable :: "string analyzer_env" where
  "env_unreadable =
     \<lparr>an_exists = (\<lambda>_. True),
      an_open = (\<lambda>p. if p = ''x_B08.tif'' then Inl (RasterioIOError ''not a supported file format'') else Inr p),
      an_read = (\<lambda>_. Inr band_a),
      an_meta = (\<lambda>_. band_meta),
      an_plot = (\<lambda>_ _ _ _. None)\<rparr>"

definition env_ndvi_missing :: "string analyzer_env" where
  "env_ndvi_missing =
     \<lparr>an_exists = (\<lambda>p. p \<noteq> ''x_B04.tif''),
      an_open = (\<lambda>p. Inr p),
      an_read = (\<lambda>ds. Inr (if ds = ''x_B03.tif'' then band_a else band_b)),
      an_meta = (\<lambda>_. band_meta),
      an_plot = (\<lambda>_ _ _ _. None)\<rparr>"

section \<open>Properties\<close>

subsection \<open>Georeferencing of the crop\<close>

lemma window_transform_origin:
  "pixel_to_world (window_transform t w) 0 0 = pixel_to_world t (row_off w) (col_off w)"
  by (simp add: window_transform_def pixel_to_world_def split: prod.splits)

text \<open>
  C1. For every view \<open>v\<close> and every window \<open>w\<close> (so also for each one the resolver
  produces), the profile synthesized for \<open>(v, w)\<close> holds a transform, and that
  transform applied to pixel \<open>(0, 0)\<close> of the output is the view's transform
  applied to pixel \<open>(row_off w, col_off w)\<close>: the origin of the crop is the world
  coordinate of the window's top-left pixel in the view.
\<close>

theorem synthesized_transform_origin:
  "map_option (\<lambda>t. pixel_to_world t 0 0) (profile_transform (synthesize_profile v w))
     = Some (pixel_to_world (vrt_transform v) (row_off w) (col_off w))"
  by (simp add: synthesize_profile_def profile_transform_def window_transform_origin)

text \<open>
  C2. For every window \<open>w\<close>, the synthesized profile has width \<open>width w\<close> (the
  window's column count) and height \<open>height w\<close> (its row count), and its band count
  and dtype are those of the profile it was copied from.
\<close>

theorem synthesized_profile_dimensions:
  "synthesize_profile v w ''width'' = Some (PNum (width w))
   \<and> synthesize_profile v w ''height'' = Some (PNum (height w))
   \<and> synthesize_profile v w ''count'' = vrt_profile v ''count''
   \<and> synthesize_profile v w ''dtype'' = vrt_profile v ''dtype''"
  by (simp add: synthesize_profile_def)

subsection \<open>Failures of a subset read\<close>

lemma download_subset_returns: "sr_result (download_subset io href p bb) = Returns PyNone"
  by (simp add: download_subset_def split: prod.splits option.splits)

text \<open>
  C3, as stated, fails. With a source whose open raises an IO error, the body of
  \<open>download_subset\<close> fails and the caller still gets the plain return value, so the
  failure is not surfaced as an error; and a decoding error at the same place gives the
  caller the very same run as the IO error does.
\<close>

theorem download_subset_swallows_counterexample:
  "fst (subset_body io_expired ''href'' ''out_B04.tif'' (Dbl 0, Dbl 0, Dbl 1, Dbl 1)) = Some (RasterioIOError ''HTTP 403'')
   \<and> \<not> surfaces (fst (subset_body io_expired ''href'' ''out_B04.tif'' (Dbl 0, Dbl 0, Dbl 1, Dbl 1)))
          (sr_result (download_subset io_expired ''href'' ''out_B04.tif'' (Dbl 0, Dbl 0, Dbl 1, Dbl 1)))
   \<and> fst (subset_body io_corrupt ''href'' ''out_B04.tif'' (Dbl 0, Dbl 0, Dbl 1, Dbl 1)) = Some (RasterioDecodeError ''HTTP 403'')
   \<and> download_subset io_corrupt ''href'' ''out_B04.tif'' (Dbl 0, Dbl 0, Dbl 1, Dbl 1)
       = download_subset io_expired ''href'' ''out_B04.tif'' (Dbl 0, Dbl 0, Dbl 1, Dbl 1)"
  by (simp add: subset_body_def download_subset_def surfaces_def io_expired_def io_corrupt_def)

text \<open>
  C3, amended. When the body of a subset read fails with an exception \<open>e\<close>, whatever
  its kind, \<open>download_subset\<close> catches it, prints the start message, the text of
  \<open>e\<close> and a fixed hint (and no completion message), and returns normally with the
  value it also returns on success. IO and decoding errors go through the same handler
  and differ for the caller only in the printed text.
\<close>

theorem download_subset_failure_printed:
  assumes "fst (subset_body io href p bb) = Some e"
  shows "sr_result (download_subset io href p bb) = Returns PyNone
         \<and> sr_printed (download_subset io href p bb)
             = [MsgSubsetStart p, MsgSubsetError (exn_text e), MsgSubsetHint]"
proof -
  obtain files where "subset_body io href p bb = (Some e, files)"
    using assms by (cases "subset_body io href p bb") simp
  then show ?thesis by (simp add: download_subset_def)
qed

theorem download_subset_failure_printed_witness:
  "fst (subset_body io_expired ''href'' ''out_B04.tif'' (Dbl 0, Dbl 0, Dbl 1, Dbl 1)) = Some (RasterioIOError ''HTTP 403'')
   \<and> sr_result (download_subset io_expired ''href'' ''out_B04.tif'' (Dbl 0, Dbl 0, Dbl 1, Dbl 1)) = Returns PyNone
   \<and> sr_printed (download_subset io_expired ''href'' ''out_B04.tif'' (Dbl 0, Dbl 0, Dbl 1, Dbl 1))
       = [MsgSubsetStart ''out_B04.tif'', MsgSubsetError ''HTTP 403'', MsgSubsetHint]"
proof -
  have h: "fst (subset_body io_expired ''href'' ''out_B04.tif'' (Dbl 0, Dbl 0, Dbl 1, Dbl 1)) = Some (RasterioIOError ''HTTP 403'')"
    by (simp add: subset_body_def io_expired_def)
  from download_subset_failure_printed [OF h] h show ?thesis by simp
qed

subsection \<open>Rounding is monotone\<close>

lemma expo_bounds: "0 < x \<Longrightarrow> 2 powi expo x \<le> x \<and> x < 2 powi (expo x + 1)"
proof (induction x rule: expo.induct)
  case (1 x)
  show ?case
  proof (cases "x < 1")
    case True
    with "1.prems" have ih: "2 powi expo (2 * x) \<le> 2 * x \<and> 2 * x < 2 powi (expo (2 * x) + 1)"
      using "1.IH"(1) by simp
    have e: "expo x = expo (2 * x) - 1" using True "1.prems" by (subst expo.simps) simp
    have "(2::real) powi expo (2 * x) = 2 powi (expo x + 1)" using e by simp
    also have "\<dots> = 2 powi expo x * 2" by (simp add: power_int_add)
    finally have p: "(2::real) powi expo (2 * x) = 2 powi expo x * 2" .
    have "(2::real) powi (expo (2 * x) + 1) = 2 powi expo (2 * x) * 2" by (simp add: power_int_add)
    with p e ih show ?thesis by simp
  next
    case False
    show ?thesis
    proof (cases "2 \<le> x")
      case True
      with False "1.prems" have ih: "2 powi expo (x / 2) \<le> x / 2 \<and> x / 2 < 2 powi (expo (x / 2) + 1)"
        using "1.IH"(2) by simp
      have e: "expo x = expo (x / 2) + 1" using True False by (subst expo.simps) simp
      have a: "(2::real) powi (expo (x / 2) + 1) = 2 powi expo (x / 2) * 2" by (simp add: power_int_add)
      have b: "(2::real) powi (expo (x / 2) + 1 + 1) = 2 powi (expo (x / 2) + 1) * 2"
        by (simp add: power_int_add)
      from ih a b e show ?thesis by simp
    next
      case nt: False
      with False have "expo x = 0" by (subst expo.simps) simp
      with False nt show ?thesis by simp
    qed
  qed
qed

lemma rhe_range: "\<lfloor>x\<rfloor> \<le> round_half_even x \<and> round_half_even x \<le> \<lfloor>x\<rfloor> + 1"
  by (simp add: round_half_even_def Let_def)

lemma rhe_of_int: "round_half_even (of_int n) = n"
  by (simp add: round_half_even_def)

lemma rhe_mono:
  assumes "x \<le> y"
  shows "round_half_even x \<le> round_half_even y"
proof (cases "\<lfloor>x\<rfloor> = \<lfloor>y\<rfloor>")
  case True
  then have "x - of_int \<lfloor>x\<rfloor> \<le> y - of_int \<lfloor>y\<rfloor>" using assms by simp
  with True show ?thesis by (auto simp: round_half_even_def Let_def)
next
  case False
  with assms have "\<lfloor>x\<rfloor> < \<lfloor>y\<rfloor>" using floor_mono [OF assms] by linarith
  then have "round_half_even x \<le> \<lfloor>y\<rfloor>" using rhe_range [of x] by linarith
  then show ?thesis using rhe_range [of y] by linarith
qed

lemma expo_mono:
  assumes "0 < x" and "x \<le> y"
  shows "expo x \<le> expo y"
proof (rule ccontr)
  assume "\<not> expo x \<le> expo y"
  then have "expo y + 1 \<le> expo x" by simp
  then have "(2::real) powi (expo y + 1) \<le> 2 powi expo x"
    by (intro power_int_increasing) simp_all
  moreover have "2 powi expo x \<le> x" using expo_bounds [OF assms(1)] by simp
  moreover have "y < 2 powi (expo y + 1)" using expo_bounds [of y] assms by simp
  ultimately show False using assms(2) by linarith
qed

lemma ulp_exp_mono: "0 < x \<Longrightarrow> x \<le> y \<Longrightarrow> ulp_exp x \<le> ulp_exp y"
  using expo_mono [of x y] by (simp add: ulp_exp_def)

lemma round_mag_nonneg: "0 \<le> x \<Longrightarrow> 0 \<le> round_mag x"
proof -
  assume "0 \<le> x"
  then have "0 \<le> x / 2 powi ulp_exp x" by simp
  then have "round_half_even 0 \<le> round_half_even (x / 2 powi ulp_exp x)" by (rule rhe_mono)
  then have "0 \<le> round_half_even (x / 2 powi ulp_exp x)" using rhe_of_int [of 0] by simp
  then show ?thesis by (simp add: round_mag_def)
qed

lemma round_mag_mono:
  assumes "0 < x" and "x \<le> y"
  shows "round_mag x \<le> round_mag y"
proof (cases "ulp_exp x = ulp_exp y")
  case True
  have "x / 2 powi ulp_exp y \<le> y / 2 powi ulp_exp y"
    using assms(2) by (simp add: divide_right_mono)
  then have "round_half_even (x / 2 powi ulp_exp y) \<le> round_half_even (y / 2 powi ulp_exp y)"
    by (rule rhe_mono)
  then have "real_of_int (round_half_even (x / 2 powi ulp_exp y)) * 2 powi ulp_exp y
             \<le> real_of_int (round_half_even (y / 2 powi ulp_exp y)) * 2 powi ulp_exp y"
    by (intro mult_right_mono) simp_all
  with True show ?thesis by (simp add: round_mag_def)
next
  case False
  with ulp_exp_mono [OF assms] have lt: "ulp_exp x < ulp_exp y" by simp
  have y0: "0 < y" using assms by simp
  have uy: "ulp_exp y = expo y - 52" using lt by (auto simp: ulp_exp_def max_def split: if_splits)
  have ux: "expo x - 52 \<le> ulp_exp x" by (simp add: ulp_exp_def)
  have exy: "expo x + 1 \<le> expo y" using lt uy ux by simp
  define b :: real where "b = 2 powi expo y"
  have d: "0 \<le> expo y - ulp_exp x" using lt uy by simp
  have "x < 2 powi (expo x + 1)" using expo_bounds [OF assms(1)] by simp
  also have "\<dots> \<le> b" unfolding b_def using exy by (intro power_int_increasing) simp_all
  finally have xb: "x \<le> b" by simp
  have bn: "b / 2 powi ulp_exp x = of_int (2 ^ nat (expo y - ulp_exp x))"
  proof -
    have "b / 2 powi ulp_exp x = 2 powi (expo y - ulp_exp x)"
      unfolding b_def by (simp add: power_int_diff)
    also have "\<dots> = 2 ^ nat (expo y - ulp_exp x)" using d by (simp add: power_int_nonneg_exp)
    finally show ?thesis by simp
  qed
  have "x / 2 powi ulp_exp x \<le> b / 2 powi ulp_exp x" using xb by (simp add: divide_right_mono)
  then have "round_half_even (x / 2 powi ulp_exp x) \<le> round_half_even (b / 2 powi ulp_exp x)"
    by (rule rhe_mono)
  then have "round_half_even (x / 2 powi ulp_exp x) \<le> 2 ^ nat (expo y - ulp_exp x)"
    unfolding bn rhe_of_int .
  then have "real_of_int (round_half_even (x / 2 powi ulp_exp x)) \<le> b / 2 powi ulp_exp x"
    unfolding bn by (simp only: of_int_le_iff)
  then have lo: "round_mag x \<le> b"
    by (simp add: round_mag_def pos_le_divide_eq)
  have by': "b \<le> y" unfolding b_def using expo_bounds [OF y0] by simp
  have bm: "b / 2 powi ulp_exp y = of_int (2 ^ 52)"
  proof -
    have "b / 2 powi ulp_exp y = 2 powi (expo y - ulp_exp y)"
      unfolding b_def by (simp add: power_int_diff)
    also have "\<dots> = 2 powi 52" using uy by simp
    finally show ?thesis by simp
  qed
  have "b / 2 powi ulp_exp y \<le> y / 2 powi ulp_exp y" using by' by (simp add: divide_right_mono)
  then have "round_half_even (b / 2 powi ulp_exp y) \<le> round_half_even (y / 2 powi ulp_exp y)"
    by (rule rhe_mono)
  then have "2 ^ 52 \<le> round_half_even (y / 2 powi ulp_exp y)"
    unfolding bm rhe_of_int .
  then have "b / 2 powi ulp_exp y \<le> real_of_int (round_half_even (y / 2 powi ulp_exp y))"
    unfolding bm by (simp only: of_int_le_iff)
  then have hi: "b \<le> round_mag y"
    by (simp add: round_mag_def pos_divide_le_eq)
  from lo hi show ?thesis by simp
qed

lemma round_mag_zero: "round_mag 0 = 0"
  by (simp add: round_mag_def rhe_of_int [of 0, simplified])

lemma round_real_mono:
  assumes "x \<le> y"
  shows "round_real x \<le> round_real y"
proof -
  consider "0 < x" | "y < 0" | "x \<le> 0" "0 \<le> y" by linarith
  then show ?thesis
  proof cases
    case 1
    with assms show ?thesis by (simp add: round_real_def round_mag_mono)
  next
    case 2
    with assms have "round_mag (- y) \<le> round_mag (- x)" by (intro round_mag_mono) simp_all
    with 2 assms show ?thesis by (simp add: round_real_def)
  next
    case 3
    have "round_real x \<le> 0"
      using 3(1) round_mag_nonneg [of "- x"] by (cases "x < 0") (simp_all add: round_real_def round_mag_zero)
    moreover have "0 \<le> round_real y"
      using 3(2) round_mag_nonneg [of y] by (simp add: round_real_def)
    ultimately show ?thesis by simp
  qed
qed

lemma round64_mono:
  assumes "x \<le> y"
  shows "fle (round64 x) (round64 y)"
  using round_real_mono [OF assms] by (simp add: round64_def Let_def)

lemma fle_not_fless: "fle a b \<Longrightarrow> \<not> fless b a"
  by (cases a; cases b) simp_all

lemma positive_if_west_less_east:
  assumes "fless (fsub lon s) (fadd lon s)"
  shows "fless (Dbl 0) s"
proof (cases s)
  case (Dbl v)
  show ?thesis
  proof (cases lon)
    case (Dbl l)
    show ?thesis
    proof (rule ccontr)
      assume "\<not> fless (Dbl 0) s"
      then have "v \<le> 0" using \<open>s = Dbl v\<close> by simp
      then have "l + v \<le> l + - v" by simp
      then have "fle (round64 (l + v)) (round64 (l + - v))" by (rule round64_mono)
      then have "\<not> fless (round64 (l + - v)) (round64 (l + v))" by (rule fle_not_fless)
      with assms show False using \<open>s = Dbl v\<close> \<open>lon = Dbl l\<close> by (simp add: fsub_def)
    qed
  qed (use assms \<open>s = Dbl v\<close> in \<open>simp_all add: fsub_def\<close>)
qed (use assms in \<open>cases lon; simp add: fsub_def\<close>)+

lemma west_le_east_if_positive:
  assumes "0 < v"
  shows "fle (fsub (Dbl l) (Dbl v)) (fadd (Dbl l) (Dbl v))"
proof -
  have "l + - v \<le> l + v" using assms by simp
  then show ?thesis by (simp add: fsub_def round64_mono)
qed

subsection \<open>The bounding box of a run\<close>

lemma bboxes_used_append: "bboxes_used (xs @ ys) = bboxes_used xs @ bboxes_used ys"
  by (simp add: bboxes_used_def)

lemma bboxes_used_Cons: "bboxes_used (x # xs) = event_bbox x @ bboxes_used xs"
  by (simp add: bboxes_used_def)

lemma bboxes_used_Nil: "bboxes_used [] = []"
  by (simp add: bboxes_used_def)

lemmas bbu = bboxes_used_append bboxes_used_Cons bboxes_used_Nil

lemma and_then_bboxes:
  "set (bboxes_used (fst r)) \<subseteq> S \<Longrightarrow> set (bboxes_used (fst k)) \<subseteq> S
     \<Longrightarrow> set (bboxes_used (fst (and_then r k))) \<subseteq> S"
  by (auto simp: and_then_def bbu split: prod.splits option.splits)

lemma download_bands_bboxes:
  "set (bboxes_used (fst (download_bands env best base bb bands))) \<subseteq> {bb}"
proof (induction bands)
  case Nil
  show ?case by (simp add: bbu)
next
  case (Cons band bands)
  show ?case
  proof (cases "item_assets best band")
    case None
    then show ?thesis by (simp add: bbu)
  next
    case (Some href)
    then show ?thesis using Cons.IH
      by (simp add: and_then_bboxes bbu)
  qed
qed

lemma download_file_bboxes: "bboxes_used (download_file env url p) = []"
  by (simp add: download_file_def bbu split: option.splits)

lemma preview_step_bboxes: "bboxes_used (fst (preview_step env a best base)) = []"
  by (simp add: preview_step_def bbu download_file_bboxes split: option.splits)

lemma analysis_step_bboxes:
  "set (bboxes_used (fst (analysis_step env a best base bb))) \<subseteq> {bb}"
  by (simp add: analysis_step_def bbu download_bands_bboxes)

lemma found_bboxes:
  "set (bboxes_used (fst (and_then ([Searched bb d c, Printed m], None)
        (and_then (preview_step env a best base) (analysis_step env a best base bb))))) \<subseteq> {bb}"
proof (intro and_then_bboxes)
  show "set (bboxes_used (fst ([Searched bb d c, Printed m], None :: exn option))) \<subseteq> {bb}"
    by (simp add: bbu)
  show "set (bboxes_used (fst (preview_step env a best base))) \<subseteq> {bb}"
    by (simp add: preview_step_bboxes)
  show "set (bboxes_used (fst (analysis_step env a best base bb))) \<subseteq> {bb}"
    by (rule analysis_step_bboxes)
qed

lemma search_step_bboxes:
  "set (bboxes_used (fst (search_step env a lon lat))) \<subseteq> {search_bbox lon lat (arg_bbox_size a)}"
  unfolding search_step_def Let_def
  by (simp add: bbu found_bboxes split: option.splits sum.splits list.splits)

lemma fetcher_main_bboxes:
  assumes "snd (locate env a) = Inr (lon, lat)"
  shows "set (bboxes_used (fm_events (fetcher_main env a))) \<subseteq> {search_bbox lon lat (arg_bbox_size a)}"
proof -
  have loc: "bboxes_used (fst (locate env a)) = []"
    by (simp add: locate_def bbu split: option.splits list.splits)
  obtain evs where l: "locate env a = (evs, Inr (lon, lat))"
    using assms by (cases "locate env a") simp
  with loc have e: "bboxes_used evs = []" by simp
  show ?thesis
  proof (cases "arg_coord_only a")
    case True
    with l e show ?thesis by (simp add: fetcher_main_def bbu)
  next
    case False
    with l e search_step_bboxes [of env a lon lat] show ?thesis
      by (cases "search_step env a lon lat") (simp add: fetcher_main_def bbu)
  qed
qed

lemma fetcher_main_no_location:
  assumes "snd (locate env a) = Inl e"
  shows "bboxes_used (fm_events (fetcher_main env a)) = []"
proof -
  have loc: "bboxes_used (fst (locate env a)) = []"
    by (simp add: locate_def bbu split: option.splits list.splits)
  obtain evs where l: "locate env a = (evs, Inl e)"
    using assms by (cases "locate env a") simp
  with loc show ?thesis by (simp add: fetcher_main_def)
qed

lemma search_bbox_invariant_positive:
  assumes "bbox_invariant (search_bbox lon lat s)"
  shows "fless (Dbl 0) s"
  using assms positive_if_west_less_east [of lon s] by (simp add: search_bbox_def)

lemma search_bbox_ordered:
  assumes "is_finite lon" and "is_finite lat" and "is_finite s" and "fless (Dbl 0) s"
  shows "bbox_ordered (search_bbox lon lat s)"
proof -
  obtain l t v where "lon = Dbl l" "lat = Dbl t" "s = Dbl v"
    using assms(1-3) by (cases lon; cases lat; cases s) simp_all
  with assms(4) west_le_east_if_positive [of v l] west_le_east_if_positive [of v t]
  show ?thesis by (simp add: search_bbox_def)
qed

lemmas round64_eval =
  round64_def round_real_def round_mag_def ulp_exp_def expo.simps round_half_even_def Let_def

lemma fetcher_main_searches:
  assumes "snd (locate env a) = Inr (lon, lat)" and "\<not> arg_coord_only a" and "catalog_open env = None"
  shows "Searched (search_bbox lon lat (arg_bbox_size a))
           (arg_start_date a @ ''/'' @ or_else (arg_end_date a) (today env)) (arg_cloud_cover a)
         \<in> set (fm_events (fetcher_main env a))"
proof -
  obtain evs where l: "locate env a = (evs, Inr (lon, lat))"
    using assms(1) by (cases "locate env a") simp
  have "Searched (search_bbox lon lat (arg_bbox_size a))
           (arg_start_date a @ ''/'' @ or_else (arg_end_date a) (today env)) (arg_cloud_cover a)
         \<in> set (fst (search_step env a lon lat))"
    using assms(3) unfolding search_step_def Let_def
    by (simp add: and_then_def split: option.splits sum.splits list.splits prod.splits)
  with l assms(2) show ?thesis
    by (cases "search_step env a lon lat") (simp add: fetcher_main_def)
qed

text \<open>
  C10, as stated, fails. For the point \<open>(139.75, 35.5)\<close> and the positive
  \<open>bbox_size = 2 ^ -60\<close>, the subtractions and additions of line 125 round back to
  \<open>139.75\<close> and \<open>35.5\<close>: the box has \<open>west = east\<close> and \<open>south = north\<close>,
  it does not satisfy the invariant although \<open>bbox_size > 0\<close>, and the run hands
  this box to the catalog search and to both calls of \<open>download_subset\<close>.
\<close>

theorem search_bbox_absorbed_counterexample:
  "fless (Dbl 0) (arg_bbox_size args_tiny_size)
   \<and> search_bbox (Dbl (559 / 4)) (Dbl (71 / 2)) (Dbl (1 / 2 ^ 60))
       = (Dbl (559 / 4), Dbl (71 / 2), Dbl (559 / 4), Dbl (71 / 2))
   \<and> \<not> bbox_invariant (search_bbox (Dbl (559 / 4)) (Dbl (71 / 2)) (Dbl (1 / 2 ^ 60)))
   \<and> bboxes_used (fm_events (fetcher_main env_one_scene args_tiny_size))
       = [(Dbl (559 / 4), Dbl (71 / 2), Dbl (559 / 4), Dbl (71 / 2)),
          (Dbl (559 / 4), Dbl (71 / 2), Dbl (559 / 4), Dbl (71 / 2)),
          (Dbl (559 / 4), Dbl (71 / 2), Dbl (559 / 4), Dbl (71 / 2))]"
proof -
  have b: "search_bbox (Dbl (559 / 4)) (Dbl (71 / 2)) (Dbl (1 / 2 ^ 60))
           = (Dbl (559 / 4), Dbl (71 / 2), Dbl (559 / 4), Dbl (71 / 2))"
    by (simp add: search_bbox_def fsub_def round64_eval)
  have r: "bboxes_used (fm_events (fetcher_main env_one_scene args_tiny_size))
           = [search_bbox (Dbl (559 / 4)) (Dbl (71 / 2)) (Dbl (1 / 2 ^ 60)),
              search_bbox (Dbl (559 / 4)) (Dbl (71 / 2)) (Dbl (1 / 2 ^ 60)),
              search_bbox (Dbl (559 / 4)) (Dbl (71 / 2)) (Dbl (1 / 2 ^ 60))]"
    by (simp add: fetcher_main_def locate_def search_step_def analysis_step_def preview_step_def
        select_bands_def and_then_def bbu env_one_scene_def args_tiny_size_def
        args_negative_size_def scene_def Let_def)
  have p: "fless (Dbl 0) (arg_bbox_size args_tiny_size)"
    by (simp add: args_tiny_size_def)
  from p r show ?thesis unfolding b by simp
qed

text \<open>
  C10, amended. When step 1 of \<open>main\<close> yields the point \<open>(lon, lat)\<close>, every
  bounding box that the run hands to the catalog search or to \<open>download_subset\<close> is
  the centered square \<open>(lon - bbox_size, lat - bbox_size, lon + bbox_size,
  lat + bbox_size)\<close> as float arithmetic computes it. That square satisfies
  \<open>west < east\<close> and \<open>south < north\<close> only when \<open>bbox_size > 0\<close>; for finite
  \<open>lon\<close>, \<open>lat\<close> and a finite \<open>bbox_size > 0\<close> it satisfies
  \<open>west <= east\<close> and \<open>south <= north\<close>. No check of \<open>bbox_size\<close> stands before
  the search: unless \<open>--coord-only\<close> returns early or the catalog cannot be opened,
  the search is made with that square whatever the value of \<open>bbox_size\<close>.
\<close>

theorem search_bbox_centered_unvalidated:
  assumes "snd (locate env a) = Inr (lon, lat)"
  shows "set (bboxes_used (fm_events (fetcher_main env a)))
           \<subseteq> {search_bbox lon lat (arg_bbox_size a)}
         \<and> (bbox_invariant (search_bbox lon lat (arg_bbox_size a))
              \<longrightarrow> fless (Dbl 0) (arg_bbox_size a))
         \<and> (is_finite lon \<and> is_finite lat \<and> is_finite (arg_bbox_size a)
              \<and> fless (Dbl 0) (arg_bbox_size a)
              \<longrightarrow> bbox_ordered (search_bbox lon lat (arg_bbox_size a)))
         \<and> (\<not> arg_coord_only a \<and> catalog_open env = None \<longrightarrow>
              Searched (search_bbox lon lat (arg_bbox_size a))
                (arg_start_date a @ ''/'' @ or_else (arg_end_date a) (today env))
                (arg_cloud_cover a)
              \<in> set (fm_events (fetcher_main env a)))"
  using fetcher_main_bboxes [OF assms] search_bbox_invariant_positive search_bbox_ordered
    fetcher_main_searches [OF assms]
  by blast

theorem search_bbox_centered_unvalidated_witness:
  "snd (locate env_one_scene args_unit_size) = Inr (Dbl 10, Dbl 20)
   \<and> bbox_invariant (Dbl 9, Dbl 19, Dbl 11, Dbl 21)
   \<and> is_finite (Dbl 10) \<and> is_finite (Dbl 20) \<and> is_finite (Dbl 1) \<and> fless (Dbl 0) (Dbl 1)
   \<and> \<not> arg_coord_only args_unit_size \<and> catalog_open env_one_scene = None
   \<and> set (bboxes_used (fm_events (fetcher_main env_one_scene args_unit_size)))
       \<subseteq> {(Dbl 9, Dbl 19, Dbl 11, Dbl 21)}
   \<and> bbox_ordered (Dbl 9, Dbl 19, Dbl 11, Dbl 21)
   \<and> Searched (Dbl 9, Dbl 19, Dbl 11, Dbl 21) ''2023-01-01/2024-06-01'' (Dbl 10)
       \<in> set (fm_events (fetcher_main env_one_scene args_unit_size))
   \<and> snd (locate env_one_scene args_negative_size) = Inr (Dbl 10, Dbl 20)
   \<and> \<not> arg_coord_only args_negative_size
   \<and> \<not> bbox_invariant (Dbl 11, Dbl 21, Dbl 9, Dbl 19)
   \<and> Searched (Dbl 11, Dbl 21, Dbl 9, Dbl 19) ''2023-01-01/2024-06-01'' (Dbl 10)
       \<in> set (fm_events (fetcher_main env_one_scene args_negative_size))"
proof -
  have h: "snd (locate env_one_scene args_unit_size) = Inr (Dbl 10, Dbl 20)"
    and h': "snd (locate env_one_scene args_negative_size) = Inr (Dbl 10, Dbl 20)"
    by (simp_all add: locate_def args_unit_size_def args_negative_size_def)
  have s: "arg_bbox_size args_unit_size = Dbl 1" "arg_bbox_size args_negative_size = Dbl (- 1)"
    by (simp_all add: args_unit_size_def args_negative_size_def)
  have b: "search_bbox (Dbl 10) (Dbl 20) (Dbl 1) = (Dbl 9, Dbl 19, Dbl 11, Dbl 21)"
    and b': "search_bbox (Dbl 10) (Dbl 20) (Dbl (- 1)) = (Dbl 11, Dbl 21, Dbl 9, Dbl 19)"
    by (simp_all add: search_bbox_def fsub_def round64_eval)
  have c: "\<not> arg_coord_only args_unit_size" "\<not> arg_coord_only args_negative_size"
    "catalog_open env_one_scene = None"
    by (simp_all add: args_unit_size_def args_negative_size_def env_one_scene_def)
  have d: "arg_start_date args_unit_size @ ''/''
             @ or_else (arg_end_date args_unit_size) (today env_one_scene)
           = ''2023-01-01/2024-06-01''"
    "arg_start_date args_negative_size @ ''/''
             @ or_else (arg_end_date args_negative_size) (today env_one_scene)
           = ''2023-01-01/2024-06-01''"
    by (simp_all add: args_unit_size_def args_negative_size_def env_one_scene_def)
  have e: "arg_cloud_cover args_unit_size = Dbl 10" "arg_cloud_cover args_negative_size = Dbl 10"
    by (simp_all add: args_unit_size_def args_negative_size_def)
  from search_bbox_centered_unvalidated [OF h] search_bbox_centered_unvalidated [OF h'] h h' c
  show ?thesis
    unfolding s b b' d e by simp
qed

subsection \<open>The normalized difference of two bands of one shape\<close>

lemma broadcast_dim_same: "broadcast_dim n n = Some n"
  by (simp add: broadcast_dim_def)

lemma bcast_at_flat:
  assumes "k < nrows a * ncols a"
  shows "bcast_at a (k div ncols a) (k mod ncols a) = cells a ! k"
proof -
  have c: "0 < ncols a" using assms by (cases "ncols a") auto
  have r: "nrows a = 1 \<Longrightarrow> k div ncols a = 0" using assms by simp
  have m: "ncols a = 1 \<Longrightarrow> k mod ncols a = 0" by simp
  have "(if nrows a = 1 then 0 else k div ncols a) = k div ncols a" using r by simp
  moreover have "(if ncols a = 1 then 0 else k mod ncols a) = k mod ncols a" using m by simp
  ultimately show ?thesis by (simp add: bcast_at_def)
qed

lemma broadcast2_same_shape:
  assumes "wf_array a" and "wf_array b" and "nrows b = nrows a" and "ncols b = ncols a"
  shows "broadcast2 f a b = Inr (NdArray (nrows a) (ncols a) (map2 f (cells a) (cells b)))"
proof -
  have la: "length (cells a) = nrows a * ncols a" and lb: "length (cells b) = nrows a * ncols a"
    using assms by (simp_all add: wf_array_def)
  have "map (\<lambda>k. f (bcast_at a (k div ncols a) (k mod ncols a))
                    (bcast_at b (k div ncols a) (k mod ncols a))) [0..<nrows a * ncols a]
        = map2 f (cells a) (cells b)"
  proof (rule nth_equalityI)
    show "length (map (\<lambda>k. f (bcast_at a (k div ncols a) (k mod ncols a))
                    (bcast_at b (k div ncols a) (k mod ncols a))) [0..<nrows a * ncols a])
          = length (map2 f (cells a) (cells b))"
      using la lb by simp
  next
    fix k
    assume "k < length (map (\<lambda>k. f (bcast_at a (k div ncols a) (k mod ncols a))
                    (bcast_at b (k div ncols a) (k mod ncols a))) [0..<nrows a * ncols a])"
    then have k: "k < nrows a * ncols a" by simp
    have "bcast_at a (k div ncols a) (k mod ncols a) = cells a ! k"
      using k by (rule bcast_at_flat)
    moreover have "bcast_at b (k div ncols a) (k mod ncols a) = cells b ! k"
      using bcast_at_flat [of k b] k assms(3,4) by simp
    ultimately show "map (\<lambda>k. f (bcast_at a (k div ncols a) (k mod ncols a))
                    (bcast_at b (k div ncols a) (k mod ncols a))) [0..<nrows a * ncols a] ! k
          = map2 f (cells a) (cells b) ! k"
      using k la lb by simp
  qed
  then show ?thesis
    using assms(3,4) by (simp add: broadcast2_def broadcast_dim_same)
qed

lemma normalized_difference_same_shape:
  assumes "wf_array a" and "wf_array b" and "nrows b = nrows a" and "ncols b = ncols a"
  shows "normalized_difference a b
         = Inr (NdArray (nrows a) (ncols a)
                  (map2 (\<lambda>x y. if x + y = 0 then Fin 0 else Fin ((x - y) / (x + y)))
                        (cells a) (cells b)))"
proof -
  let ?r = "nrows a" and ?c = "ncols a"
  let ?den = "NdArray ?r ?c (map2 (+) (cells a) (cells b))"
  let ?dif = "NdArray ?r ?c (map2 (-) (cells a) (cells b))"
  let ?quo = "NdArray ?r ?c (map2 f32_div (cells ?dif) (cells ?den))"
  let ?msk = "map_array (\<lambda>d. d = 0) ?den"
  have la: "length (cells a) = ?r * ?c" and lb: "length (cells b) = ?r * ?c"
    using assms by (simp_all add: wf_array_def)
  have den: "broadcast2 (+) a b = Inr ?den" and dif: "broadcast2 (-) a b = Inr ?dif"
    using assms by (simp_all add: broadcast2_same_shape)
  have wden: "wf_array ?den" and wdif: "wf_array ?dif"
    using la lb by (simp_all add: wf_array_def)
  have quo: "broadcast2 f32_div ?dif ?den = Inr ?quo"
    using broadcast2_same_shape [OF wdif wden, of f32_div] by simp
  have wmsk: "wf_array ?msk" and wquo: "wf_array ?quo"
    using la lb by (simp_all add: wf_array_def map_array_def)
  have fin: "broadcast2 (\<lambda>zero q. if zero then Fin 0 else q) ?msk ?quo
             = Inr (NdArray ?r ?c (map2 (\<lambda>zero q. if zero then Fin 0 else q) (cells ?msk) (cells ?quo)))"
    using broadcast2_same_shape [OF wmsk wquo, of "\<lambda>zero q. if zero then Fin 0 else q"]
    by (simp add: map_array_def)
  have "map2 (\<lambda>zero q. if zero then Fin 0 else q) (cells ?msk) (cells ?quo)
        = map2 (\<lambda>x y. if x + y = 0 then Fin 0 else Fin ((x - y) / (x + y))) (cells a) (cells b)"
    using la lb by (intro nth_equalityI) (simp_all add: map_array_def f32_div_def)
  with den dif quo fin show ?thesis
    by (simp add: normalized_difference_def)
qed

lemma cell_NdArray_map2:
  assumes "length xs = r * c" and "length ys = r * c" and "i < r" and "j < c"
  shows "cell (NdArray r c (map2 f xs ys)) i j = Some (f (xs ! (i * c + j)) (ys ! (i * c + j)))"
proof -
  have "i * c + j < r * c"
  proof -
    have "i * c + j < i * c + c" using assms(4) by simp
    also have "\<dots> = Suc i * c" by simp
    also have "\<dots> \<le> r * c" using assms(3) by (intro mult_le_mono1) simp
    finally show ?thesis .
  qed
  then show ?thesis using assms by (simp add: cell_def)
qed

lemma nd_at_same_shape:
  assumes "wf_array a" and "wf_array b" and "same_shape a b"
    and "cell a i j = Some x" and "cell b i j = Some y"
  shows "nd_at a b i j = Some (if x + y = 0 then Fin 0 else Fin ((x - y) / (x + y)))"
proof -
  have ij: "i < nrows a" "j < ncols a"
    using assms(4) by (simp_all add: cell_def split: if_splits)
  have s: "nrows b = nrows a" "ncols b = ncols a"
    using assms(3) by (simp_all add: same_shape_def)
  have x: "cells a ! (i * ncols a + j) = x" and y: "cells b ! (i * ncols a + j) = y"
    using assms(4,5) s by (simp_all add: cell_def split: if_splits)
  have la: "length (cells a) = nrows a * ncols a" and lb: "length (cells b) = nrows a * ncols a"
    using assms(1,2) s by (simp_all add: wf_array_def)
  show ?thesis
    using normalized_difference_same_shape [OF assms(1,2) s]
      cell_NdArray_map2 [OF la lb ij, of "\<lambda>x y. if x + y = 0 then Fin 0 else Fin ((x - y) / (x + y))"] x y
    by (simp add: nd_at_def)
qed


lemma band_facts:
  "wf_array band_a" "wf_array band_b" "same_shape band_a band_b"
  "cell band_a 1 1 = Some 5" "cell band_b 1 1 = Some 0"
  "cell band_a 1 0 = Some 0" "cell band_b 1 0 = Some 0"
  by (simp_all add: wf_array_def same_shape_def cell_def band_a_def band_b_def)



text \<open>
  C5. For two well-formed bands of the same shape, at every position where the two
  pixels sum to exactly zero the output is exactly \<open>0.0\<close>, a finite value and so
  neither NaN nor an infinity.
\<close>

theorem normalized_difference_zero_sum:
  assumes "wf_array a" and "wf_array b" and "same_shape a b"
    and "cell a i j = Some x" and "cell b i j = Some y" and "x + y = 0"
  shows "nd_at a b i j = Some (Fin 0)"
  using nd_at_same_shape [OF assms(1-5)] assms(6) by simp

theorem normalized_difference_zero_sum_witness:
  "wf_array band_a \<and> wf_array band_b \<and> same_shape band_a band_b
   \<and> cell band_a 1 0 = Some 0 \<and> cell band_b 1 0 = Some 0 \<and> (0::real) + 0 = 0
   \<and> nd_at band_a band_b 1 0 = Some (Fin 0)"
  using normalized_difference_zero_sum [OF band_facts(1-3) band_facts(6,7)] band_facts by simp

lemma same_shape_sym: "same_shape a b \<Longrightarrow> same_shape b a"
  by (simp add: same_shape_def)

text \<open>
  C7. For two well-formed bands of the same shape, at every position where the two
  pixels do not sum to zero, the output for \<open>(a, b)\<close> equals, as floats, the negated
  output for \<open>(b, a)\<close>.
\<close>

theorem normalized_difference_antisymmetric:
  assumes "wf_array a" and "wf_array b" and "same_shape a b"
    and "cell a i j = Some x" and "cell b i j = Some y" and "x + y \<noteq> 0"
  shows "\<exists>p q. nd_at a b i j = Some p \<and> nd_at b a i j = Some q \<and> f32_eq p (f32_neg q)"
proof -
  have ab: "nd_at a b i j = Some (Fin ((x - y) / (x + y)))"
    using nd_at_same_shape [OF assms(1-5)] assms(6) by simp
  have "y + x \<noteq> 0" using assms(6) by (simp add: add.commute)
  then have ba: "nd_at b a i j = Some (Fin ((y - x) / (y + x)))"
    using nd_at_same_shape [OF assms(2,1) same_shape_sym [OF assms(3)] assms(5,4)] by simp
  have "(x - y) / (x + y) = - ((y - x) / (y + x))"
    by (simp add: add.commute minus_divide_left)
  with ab ba show ?thesis by simp
qed

theorem normalized_difference_antisymmetric_witness:
  "wf_array band_a \<and> wf_array band_b \<and> same_shape band_a band_b
   \<and> cell band_a 1 1 = Some 5 \<and> cell band_b 1 1 = Some 0 \<and> (5::real) + 0 \<noteq> 0
   \<and> (\<exists>p q. nd_at band_a band_b 1 1 = Some p \<and> nd_at band_b band_a 1 1 = Some q
          \<and> f32_eq p (f32_neg q))"
  using normalized_difference_antisymmetric [OF band_facts(1-5)] band_facts by simp

subsection \<open>Bands of different shapes\<close>

lemma broadcast2_shape:
  assumes "broadcast_dim (nrows a) (nrows b) = Some r" and "broadcast_dim (ncols a) (ncols b) = Some c"
  shows "\<exists>out. broadcast2 f a b = Inr out \<and> nrows out = r \<and> ncols out = c \<and> length (cells out) = r * c"
  using assms by (simp add: broadcast2_def)

lemma broadcast2_error:
  assumes "\<not> broadcastable a b"
  shows "broadcast2 f a b = Inl (ValueError ''operands could not be broadcast together'')"
  using assms by (auto simp: broadcast2_def broadcastable_def split: option.splits)

lemma normalized_difference_error:
  assumes "\<not> broadcastable a b"
  shows "normalized_difference a b = Inl (ValueError ''operands could not be broadcast together'')"
  using broadcast2_error [OF assms, of "(+)"] by (simp add: normalized_difference_def)

lemma normalized_difference_shape:
  assumes "broadcast_dim (nrows a) (nrows b) = Some r" and "broadcast_dim (ncols a) (ncols b) = Some c"
  shows "\<exists>out. normalized_difference a b = Inr out \<and> nrows out = r \<and> ncols out = c
               \<and> length (cells out) = r * c"
proof -
  obtain den where den: "broadcast2 (+) a b = Inr den" "nrows den = r" "ncols den = c"
    using broadcast2_shape [OF assms, of "(+)"] by blast
  obtain dif where dif: "broadcast2 (-) a b = Inr dif" "nrows dif = r" "ncols dif = c"
    using broadcast2_shape [OF assms, of "(-)"] by blast
  have "broadcast_dim (nrows dif) (nrows den) = Some r" "broadcast_dim (ncols dif) (ncols den) = Some c"
    using den dif by (simp_all add: broadcast_dim_same)
  then obtain quo where quo: "broadcast2 f32_div dif den = Inr quo" "nrows quo = r" "ncols quo = c"
    using broadcast2_shape [of dif den r c f32_div] by blast
  have "broadcast_dim (nrows (map_array (\<lambda>d. d = 0) den)) (nrows quo) = Some r"
       "broadcast_dim (ncols (map_array (\<lambda>d. d = 0) den)) (ncols quo) = Some c"
    using den quo by (simp_all add: broadcast_dim_same map_array_def)
  then obtain out where
    "broadcast2 (\<lambda>zero q. if zero then Fin 0 else q) (map_array (\<lambda>d. d = 0) den) quo = Inr out"
    "nrows out = r" "ncols out = c" "length (cells out) = r * c"
    using broadcast2_shape [of "map_array (\<lambda>d. d = 0) den" quo r c "\<lambda>zero q. if zero then Fin 0 else q"]
    by blast
  with den dif quo show ?thesis by (simp add: normalized_difference_def)
qed

lemma nanmin_nonempty: "cells a \<noteq> [] \<Longrightarrow> \<exists>lo. nanmin a = Inr lo"
  by (cases "cells a") (simp_all add: nanmin_def)

lemma nanmax_nonempty: "cells a \<noteq> [] \<Longrightarrow> \<exists>hi. nanmax a = Inr hi"
  by (cases "cells a") (simp_all add: nanmax_def)

text \<open>
  C6, as stated, fails. A band of shape \<open>(2, 2)\<close> and a band of shape \<open>(1, 2)\<close> do
  not have the same shape, and \<open>calculate_index\<close> reports no error for them: it
  prints its two lines and returns an index of shape \<open>(2, 2)\<close>.
\<close>

theorem shape_mismatch_accepted_counterexample:
  "an_read env_bands ''x_B08.tif'' = Inr band_a \<and> an_read env_bands ''x_B04.tif'' = Inr band_row
   \<and> \<not> same_shape band_a band_row
   \<and> fst (calculate_index env_bands ''x_B08.tif'' ''x_B04.tif'' ''NDVI'')
       = [MsgCalcStart ''NDVI'' ''x_B08.tif'' ''x_B04.tif'', MsgCalcDone ''NDVI'' (Fin (- 1)) (Fin 1)]
   \<and> snd (calculate_index env_bands ''x_B08.tif'' ''x_B04.tif'' ''NDVI'')
       = Inr (NdArray 2 2 [Fin 0, Fin 1, Fin (- 1), Fin 1], band_meta)"
  by (simp add: env_bands_def band_a_def band_row_def same_shape_def calculate_index_def
      normalized_difference_def broadcast2_def broadcast_dim_def bcast_at_def map_array_def
      f32_div_def nanmin_def nanmax_def upt_rec)

text \<open>
  C6, amended. \<open>calculate_index\<close> makes no shape check of its own. Once both bands
  have been read, shapes that cannot be broadcast together make the first arithmetic
  operation, \<open>b1 + b2\<close>, raise a \<open>ValueError\<close>, which leaves the function after
  its first printed line; shapes that can be broadcast together, equal or not, raise no
  error, and for a non-empty result the function returns an index of the broadcast
  shape with the metadata of the first band.
\<close>

theorem shape_mismatch_unchecked:
  assumes "an_open env p1 = Inr s1" and "an_read env s1 = Inr b1"
    and "an_open env p2 = Inr s2" and "an_read env s2 = Inr b2"
  shows "(\<not> broadcastable b1 b2 \<longrightarrow>
            calculate_index env p1 p2 n
            = ([MsgCalcStart n p1 p2], Inl (ValueError ''operands could not be broadcast together'')))
         \<and> (\<forall>r c. broadcast_dim (nrows b1) (nrows b2) = Some r
                 \<and> broadcast_dim (ncols b1) (ncols b2) = Some c \<and> 0 < r * c \<longrightarrow>
              (\<exists>out. snd (calculate_index env p1 p2 n) = Inr (out, an_meta env s1)
                     \<and> nrows out = r \<and> ncols out = c))"
proof (intro conjI impI allI)
  assume "\<not> broadcastable b1 b2"
  then show "calculate_index env p1 p2 n
             = ([MsgCalcStart n p1 p2], Inl (ValueError ''operands could not be broadcast together''))"
    using assms normalized_difference_error [of b1 b2] by (simp add: calculate_index_def)
next
  fix r c
  assume h: "broadcast_dim (nrows b1) (nrows b2) = Some r
             \<and> broadcast_dim (ncols b1) (ncols b2) = Some c \<and> 0 < r * c"
  then obtain out where out: "normalized_difference b1 b2 = Inr out" "nrows out = r" "ncols out = c"
      "length (cells out) = r * c"
    using normalized_difference_shape [of b1 b2 r c] by blast
  with h have ne: "cells out \<noteq> []" by auto
  obtain lo hi where "nanmin out = Inr lo" "nanmax out = Inr hi"
    using nanmin_nonempty [OF ne] nanmax_nonempty [OF ne] by blast
  with assms out show "\<exists>out. snd (calculate_index env p1 p2 n) = Inr (out, an_meta env s1)
                     \<and> nrows out = r \<and> ncols out = c"
    by (simp add: calculate_index_def)
qed

theorem shape_mismatch_unchecked_witness:
  "an_open env_bands ''x_B08.tif'' = Inr ''x_B08.tif'' \<and> an_read env_bands ''x_B08.tif'' = Inr band_a
   \<and> an_open env_bands ''x_B04.tif'' = Inr ''x_B04.tif'' \<and> an_read env_bands ''x_B04.tif'' = Inr band_row
   \<and> broadcast_dim (nrows band_a) (nrows band_row) = Some 2
   \<and> broadcast_dim (ncols band_a) (ncols band_row) = Some 2 \<and> (0::nat) < 2 * 2
   \<and> (\<exists>out. snd (calculate_index env_bands ''x_B08.tif'' ''x_B04.tif'' ''NDVI'')
               = Inr (out, an_meta env_bands ''x_B08.tif'')
             \<and> nrows out = 2 \<and> ncols out = 2)"
proof -
  have o1: "an_open env_bands ''x_B08.tif'' = Inr ''x_B08.tif''"
    and r1: "an_read env_bands ''x_B08.tif'' = Inr band_a"
    and o2: "an_open env_bands ''x_B04.tif'' = Inr ''x_B04.tif''"
    and r2: "an_read env_bands ''x_B04.tif'' = Inr band_row"
    by (simp_all add: env_bands_def)
  have d: "broadcast_dim (nrows band_a) (nrows band_row) = Some 2
           \<and> broadcast_dim (ncols band_a) (ncols band_row) = Some 2 \<and> (0::nat) < 2 * 2"
    by (simp add: broadcast_dim_def band_a_def band_row_def)
  from shape_mismatch_unchecked [OF o1 r1 o2 r2, of "''NDVI''"] d o1 r1 o2 r2
  show ?thesis by blast
qed

subsection \<open>The two blocks of the analyzer\<close>

lemma index_block_handled:
  "handled n (fst (index_block env p1 p2 n out cmap title))"
  by (auto simp: index_block_def handled_def calculate_index_def and_then_def save_heatmap_def Let_def
      split: sum.splits option.splits prod.splits)

lemma index_block_missing:
  "\<not> (an_exists env p1 \<and> an_exists env p2)
     \<Longrightarrow> index_block env p1 p2 n out cmap title = ([MsgSkip n p1 p2], None)"
  by (auto simp: index_block_def)

lemma handled_append: "handled n (xs @ ys) = (handled n xs \<or> handled n ys)"
  by (auto simp: handled_def)

text \<open>
  C8, as stated, fails. With all four band files present and the first one unreadable,
  the NDVI computation raises, \<open>main\<close> ends with that exception after the first
  printed line, and nothing is printed for MNDWI: the failure of one index does prevent
  the other from running.
\<close>

theorem failed_index_aborts_run_counterexample:
  "an_exists env_unreadable ''x_B03.tif'' \<and> an_exists env_unreadable ''x_B11.tif''
   \<and> ndvi_block env_unreadable ''x''
       = ([MsgCalcStart ''NDVI'' ''x_B08.tif'' ''x_B04.tif''],
          Some (RasterioIOError ''not a supported file format''))
   \<and> analyzer_main env_unreadable ''x''
       = ([MsgCalcStart ''NDVI'' ''x_B08.tif'' ''x_B04.tif''],
          Some (RasterioIOError ''not a supported file format''))
   \<and> \<not> handled ''MNDWI'' (fst (analyzer_main env_unreadable ''x''))"
  by (simp add: env_unreadable_def analyzer_main_def ndvi_block_def index_block_def
      calculate_index_def and_then_def handled_def)

text \<open>
  C8, amended. When a band file of NDVI is missing, NDVI is skipped with a message and
  the run goes on with the MNDWI block; when NDVI raised nothing and a band file of
  MNDWI is missing, MNDWI is skipped with a message and the run ends normally; whenever
  the NDVI block raises nothing, skipped or computed, the MNDWI block runs. An exception
  raised in the NDVI block is not caught: the run ends with it and MNDWI is not
  attempted.
\<close>

theorem skipped_index_continues:
  "(\<not> (an_exists env (base @ ''_B08.tif'') \<and> an_exists env (base @ ''_B04.tif'')) \<longrightarrow>
      analyzer_main env base
      = (MsgSkip ''NDVI'' (base @ ''_B08.tif'') (base @ ''_B04.tif'') # fst (mndwi_block env base),
         snd (mndwi_block env base)))
   \<and> (snd (ndvi_block env base) = None
        \<and> \<not> (an_exists env (base @ ''_B03.tif'') \<and> an_exists env (base @ ''_B11.tif'')) \<longrightarrow>
      analyzer_main env base
      = (fst (ndvi_block env base) @ [MsgSkip ''MNDWI'' (base @ ''_B03.tif'') (base @ ''_B11.tif'')],
         None))
   \<and> (snd (ndvi_block env base) = None \<longrightarrow> handled ''MNDWI'' (fst (analyzer_main env base)))
   \<and> (\<forall>e. snd (ndvi_block env base) = Some e \<longrightarrow>
        analyzer_main env base = (fst (ndvi_block env base), Some e))"
proof (intro conjI impI allI)
  assume "\<not> (an_exists env (base @ ''_B08.tif'') \<and> an_exists env (base @ ''_B04.tif''))"
  then have "ndvi_block env base
             = ([MsgSkip ''NDVI'' (base @ ''_B08.tif'') (base @ ''_B04.tif'')], None)"
    unfolding ndvi_block_def by (rule index_block_missing)
  then show "analyzer_main env base
      = (MsgSkip ''NDVI'' (base @ ''_B08.tif'') (base @ ''_B04.tif'') # fst (mndwi_block env base),
         snd (mndwi_block env base))"
    by (cases "mndwi_block env base") (simp add: analyzer_main_def and_then_def)
next
  assume h: "snd (ndvi_block env base) = None
        \<and> \<not> (an_exists env (base @ ''_B03.tif'') \<and> an_exists env (base @ ''_B11.tif''))"
  then have "mndwi_block env base
             = ([MsgSkip ''MNDWI'' (base @ ''_B03.tif'') (base @ ''_B11.tif'')], None)"
    unfolding mndwi_block_def by (intro index_block_missing) simp
  with h show "analyzer_main env base
      = (fst (ndvi_block env base) @ [MsgSkip ''MNDWI'' (base @ ''_B03.tif'') (base @ ''_B11.tif'')],
         None)"
    by (cases "ndvi_block env base") (simp add: analyzer_main_def and_then_def)
next
  assume h: "snd (ndvi_block env base) = None"
  have "handled ''MNDWI'' (fst (mndwi_block env base))"
    unfolding mndwi_block_def by (rule index_block_handled)
  with h show "handled ''MNDWI'' (fst (analyzer_main env base))"
    by (cases "ndvi_block env base"; cases "mndwi_block env base")
       (simp add: analyzer_main_def and_then_def handled_append)
next
  fix e
  assume "snd (ndvi_block env base) = Some e"
  then show "analyzer_main env base = (fst (ndvi_block env base), Some e)"
    by (cases "ndvi_block env base") (simp add: analyzer_main_def and_then_def)
qed

theorem skipped_index_continues_witness:
  "\<not> (an_exists env_ndvi_missing (''x'' @ ''_B08.tif'') \<and> an_exists env_ndvi_missing (''x'' @ ''_B04.tif''))
   \<and> snd (ndvi_block env_ndvi_missing ''x'') = None
   \<and> analyzer_main env_ndvi_missing ''x''
       = (MsgSkip ''NDVI'' (''x'' @ ''_B08.tif'') (''x'' @ ''_B04.tif'')
            # fst (mndwi_block env_ndvi_missing ''x''),
          snd (mndwi_block env_ndvi_missing ''x''))
   \<and> handled ''MNDWI'' (fst (analyzer_main env_ndvi_missing ''x''))
   \<and> snd (ndvi_block env_unreadable ''x'') = Some (RasterioIOError ''not a supported file format'')
   \<and> analyzer_main env_unreadable ''x''
       = (fst (ndvi_block env_unreadable ''x''), Some (RasterioIOError ''not a supported file format''))"
proof -
  have m: "\<not> (an_exists env_ndvi_missing (''x'' @ ''_B08.tif'')
               \<and> an_exists env_ndvi_missing (''x'' @ ''_B04.tif''))"
    by (simp add: env_ndvi_missing_def)
  have n: "snd (ndvi_block env_ndvi_missing ''x'') = None"
    using m by (simp add: ndvi_block_def index_block_missing)
  have u: "snd (ndvi_block env_unreadable ''x'') = Some (RasterioIOError ''not a supported file format'')"
    by (simp add: env_unreadable_def ndvi_block_def index_block_def calculate_index_def)
  from skipped_index_continues [of env_ndvi_missing "''x''"]
       skipped_index_continues [of env_unreadable "''x''"] m n u
  show ?thesis by blast
qed

subsection \<open>The metadata that calculate\_index returns\<close>

text \<open>
  C9. Whenever \<open>calculate_index\<close> returns, the metadata it returns is that of the
  source opened for the first band; and the run does not depend on the metadata of any
  other source: replacing \<open>src.meta\<close> by a function that agrees with it on the first
  source leaves the whole run, printed lines and result, unchanged.
\<close>

theorem calculate_index_meta_of_first_band:
  assumes "an_open env p1 = Inr s1"
  shows "(\<forall>index_map meta. snd (calculate_index env p1 p2 n) = Inr (index_map, meta)
            \<longrightarrow> meta = an_meta env s1)
         \<and> (\<forall>other. other s1 = an_meta env s1 \<longrightarrow>
              calculate_index (env\<lparr>an_meta := other\<rparr>) p1 p2 n = calculate_index env p1 p2 n)"
  using assms
  by (auto simp: calculate_index_def Let_def split: sum.splits)

theorem calculate_index_meta_of_first_band_witness:
  "an_open env_bands ''x_B08.tif'' = Inr ''x_B08.tif''
   \<and> snd (calculate_index env_bands ''x_B08.tif'' ''x_B04.tif'' ''NDVI'')
       = Inr (NdArray 2 2 [Fin 0, Fin 1, Fin (- 1), Fin 1], band_meta)
   \<and> an_meta env_bands ''x_B08.tif'' = band_meta
   \<and> an_meta env_bands ''x_B04.tif'' \<noteq> band_meta
   \<and> (\<lambda>_. band_meta) ''x_B08.tif'' = an_meta env_bands ''x_B08.tif''
   \<and> calculate_index (env_bands\<lparr>an_meta := (\<lambda>_. band_meta)\<rparr>) ''x_B08.tif'' ''x_B04.tif'' ''NDVI''
       = calculate_index env_bands ''x_B08.tif'' ''x_B04.tif'' ''NDVI''"
proof -
  have o: "an_open env_bands ''x_B08.tif'' = Inr ''x_B08.tif''"
    by (simp add: env_bands_def)
  have v: "snd (calculate_index env_bands ''x_B08.tif'' ''x_B04.tif'' ''NDVI'')
       = Inr (NdArray 2 2 [Fin 0, Fin 1, Fin (- 1), Fin 1], band_meta)"
    by (simp add: env_bands_def band_a_def band_row_def calculate_index_def
      normalized_difference_def broadcast2_def broadcast_dim_def bcast_at_def map_array_def
      f32_div_def nanmin_def nanmax_def upt_rec)
  have m: "an_meta env_bands ''x_B08.tif'' = band_meta \<and> an_meta env_bands ''x_B04.tif'' \<noteq> band_meta"
    by (auto simp: env_bands_def band_meta_def dest: fun_cong [of _ _ "''count''"])
  from calculate_index_meta_of_first_band [OF o, of "''x_B04.tif''" "''NDVI''"] o v m
  show ?thesis by simp
qed

end
